theory Spec2Isabelle
  imports Complex_Main
begin

section \<open>The questionnaire wizard\<close>

text \<open>
  The component \<^verbatim>\<open>QuestionnaireWizard\<close> (second part of \<^verbatim>\<open>frontend/src/routes.tsx\<close>) and the
  state that the page \<^verbatim>\<open>SmartPlanning\<close> keeps for it.
\<close>

subsection \<open>Data\<close>

text \<open>
  \<^verbatim>\<open>interface QuestionnaireData\<close>: five fields of type \<^verbatim>\<open>number | null\<close>.
  \<open>None\<close> is \<^verbatim>\<open>null\<close>. The fields \<open>age\<close> and \<open>retirementAge\<close> are written only by
  \<^verbatim>\<open>parseInt(e.target.value) || null\<close>, so they hold an integer or \<^verbatim>\<open>null\<close>; the three
  amounts are written only by \<^verbatim>\<open>parseFloat(e.target.value) || null\<close> and hold a finite
  number, taken here as an exact rational, or \<^verbatim>\<open>null\<close>.
\<close>

record QuestionnaireData =
  age :: "int option"
  currentIncome :: "rat option"
  currentWealth :: "rat option"
  retirementAge :: "int option"
  monthlyPayoutRequired :: "rat option"

text \<open>
  JavaScript coercions used by the component on a \<^verbatim>\<open>number | null\<close>:
  \<^verbatim>\<open>!x\<close> holds for \<^verbatim>\<open>null\<close> and for \<^verbatim>\<open>0\<close>; \<^verbatim>\<open>x || 0\<close> and the numeric
  value of \<^verbatim>\<open>x\<close> in a comparison read \<^verbatim>\<open>null\<close> as \<^verbatim>\<open>0\<close>; \<^verbatim>\<open>v || null\<close> turns
  \<^verbatim>\<open>NaN\<close> and \<^verbatim>\<open>0\<close> into \<^verbatim>\<open>null\<close>.
\<close>

definition falsy :: "'a::zero option \<Rightarrow> bool" where
  "falsy x = (case x of None \<Rightarrow> True | Some v \<Rightarrow> v = 0)"

definition orZero :: "'a::zero option \<Rightarrow> 'a" where
  "orZero x = (case x of None \<Rightarrow> 0 | Some v \<Rightarrow> v)"

definition orNull :: "'a::zero option \<Rightarrow> 'a option" where
  "orNull x = (case x of None \<Rightarrow> None | Some v \<Rightarrow> if v = 0 then None else Some v)"

text \<open>
  The wizard's state: the props \<open>data\<close> and \<open>currentStep\<close>, owned by the page
  \<^verbatim>\<open>SmartPlanning\<close>, and the component's own \<open>errors\<close>, a \<^verbatim>\<open>Record<string, string>\<close>
  kept as an association list of field name and message.
\<close>

record Wizard =
  data :: QuestionnaireData
  currentStep :: int
  errors :: "(string \<times> string) list"

definition initialData :: QuestionnaireData where
  "initialData = \<lparr>age = None, currentIncome = None, currentWealth = None,
     retirementAge = None, monthlyPayoutRequired = None\<rparr>"

definition initialWizard :: Wizard where
  "initialWizard = \<lparr>data = initialData, currentStep = 0, errors = []\<rparr>"

text \<open>\<^verbatim>\<open>steps.length\<close>: the array \<^verbatim>\<open>steps\<close> has five entries.\<close>

definition steps_length :: int where
  "steps_length = 5"

subsection \<open>Validation\<close>

text \<open>
  The \<^verbatim>\<open>switch\<close> of \<^verbatim>\<open>validateStep\<close>, which fills \<^verbatim>\<open>newErrors\<close>. A step other than
  0 to 4 matches no case and leaves it empty.
\<close>

definition newErrors :: "int \<Rightarrow> QuestionnaireData \<Rightarrow> (string \<times> string) list" where
  "newErrors step d =
    (if step = 0 then
       (if falsy (age d) \<or> orZero (age d) < 18 \<or> orZero (age d) > 100
        then [(''age'', ''Please enter a valid age between 18 and 100'')] else [])
     else if step = 1 then
       (if falsy (currentIncome d) \<or> orZero (currentIncome d) < 0
        then [(''currentIncome'', ''Please enter a valid income'')] else [])
     else if step = 2 then
       (if currentWealth d = None \<or> orZero (currentWealth d) < 0
        then [(''currentWealth'', ''Please enter a valid amount (can be 0)'')] else [])
     else if step = 3 then
       (if falsy (retirementAge d) \<or> orZero (retirementAge d) \<le> orZero (age d)
        then [(''retirementAge'', ''Retirement age must be greater than current age'')] else [])
     else if step = 4 then
       (if falsy (monthlyPayoutRequired d) \<or> orZero (monthlyPayoutRequired d) < 0
        then [(''monthlyPayoutRequired'', ''Please enter required monthly amount'')] else [])
     else [])"

text \<open>
  \<^verbatim>\<open>validateStep\<close> stores \<^verbatim>\<open>newErrors\<close> with \<^verbatim>\<open>setErrors\<close> and returns whether it has
  no key.
\<close>

definition validateStep :: "int \<Rightarrow> Wizard \<Rightarrow> bool \<times> Wizard" where
  "validateStep step w =
    (let e = newErrors step (data w) in (e = [], w\<lparr>errors := e\<rparr>))"

subsection \<open>Handlers\<close>

text \<open>
  \<^verbatim>\<open>handleNext\<close>: validate the current step, and move to the next one when the
  validation passed and the current step is not the last.
\<close>

definition handleNext :: "Wizard \<Rightarrow> Wizard" where
  "handleNext w =
    (let (ok, w') = validateStep (currentStep w) w in
     if ok then
       (if currentStep w < steps_length - 1 then w'\<lparr>currentStep := currentStep w + 1\<rparr> else w')
     else w')"

text \<open>\<^verbatim>\<open>handlePrevious\<close>: one step back and \<^verbatim>\<open>setErrors({})\<close>, unless at step 0.\<close>

definition handlePrevious :: "Wizard \<Rightarrow> Wizard" where
  "handlePrevious w =
    (if currentStep w > 0 then w\<lparr>currentStep := currentStep w - 1, errors := []\<rparr> else w)"

text \<open>
  The body of the \<^verbatim>\<open>POST\<close> to \<^verbatim>\<open>/api/v1/financial/analyze\<close>, as \<^verbatim>\<open>JSON.stringify\<close>
  receives it: the keys in order, each with a number or \<^verbatim>\<open>null\<close>.
\<close>

datatype json = JNull | JInt int | JNum rat

definition jsonInt :: "int option \<Rightarrow> json" where
  "jsonInt x = (case x of None \<Rightarrow> JNull | Some n \<Rightarrow> JInt n)"

definition jsonNum :: "rat option \<Rightarrow> json" where
  "jsonNum x = (case x of None \<Rightarrow> JNull | Some v \<Rightarrow> JNum v)"

definition requestBody :: "QuestionnaireData \<Rightarrow> (string \<times> json) list" where
  "requestBody d =
    [(''age'', jsonInt (age d)),
     (''retirement_age'', jsonInt (retirementAge d)),
     (''current_wealth'', JNum (orZero (currentWealth d))),
     (''current_income'', jsonNum (currentIncome d)),
     (''monthly_payout_required'', jsonNum (monthlyPayoutRequired d))]"

text \<open>
  \<^verbatim>\<open>handleSubmit\<close>: validate the current step and, when it passed, send the request.
  The result carries the request sent, if any. What the handler does with the response
  (storing \<^verbatim>\<open>analysis\<close>, opening the report) touches none of the fields modelled here.
\<close>

definition handleSubmit :: "Wizard \<Rightarrow> Wizard \<times> (string \<times> json) list option" where
  "handleSubmit w =
    (let (ok, w') = validateStep (currentStep w) w in
     if ok then (w', Some (requestBody (data w))) else (w', None))"

text \<open>\<^verbatim>\<open>handleKeyPress\<close>: Enter acts as the button of the current step.\<close>

definition handleKeyPress :: "string \<Rightarrow> Wizard \<Rightarrow> Wizard \<times> (string \<times> json) list option" where
  "handleKeyPress key w =
    (if key = ''Enter'' then
       (if currentStep w < steps_length - 1 then (handleNext w, None) else handleSubmit w)
     else (w, None))"

text \<open>
  \<^verbatim>\<open>onChange\<close> of the one input that is rendered, that of the current step. The typed
  text is given by what \<^verbatim>\<open>parseInt\<close> and \<^verbatim>\<open>parseFloat\<close> return on it, \<open>None\<close> for
  \<^verbatim>\<open>NaN\<close>; the handler stores \<^verbatim>\<open>parsed || null\<close> through \<^verbatim>\<open>onDataUpdate\<close>.
\<close>

definition onChange :: "int option \<Rightarrow> rat option \<Rightarrow> Wizard \<Rightarrow> Wizard" where
  "onChange pInt pFloat w =
    (let d = data w; s = currentStep w in
     if s = 0 then w\<lparr>data := d\<lparr>age := orNull pInt\<rparr>\<rparr>
     else if s = 1 then w\<lparr>data := d\<lparr>currentIncome := orNull pFloat\<rparr>\<rparr>
     else if s = 2 then w\<lparr>data := d\<lparr>currentWealth := orNull pFloat\<rparr>\<rparr>
     else if s = 3 then w\<lparr>data := d\<lparr>retirementAge := orNull pInt\<rparr>\<rparr>
     else if s = 4 then w\<lparr>data := d\<lparr>monthlyPayoutRequired := orNull pFloat\<rparr>\<rparr>
     else w)"

subsection \<open>Events\<close>

text \<open>
  What the user can do to the rendered component. The Next button is rendered while
  \<^verbatim>\<open>currentStep < steps.length - 1\<close> and the submit button otherwise; the Previous button
  is disabled at step 0.
\<close>

datatype event =
    Change "int option" "rat option"
  | ClickNext
  | ClickPrevious
  | ClickSubmit
  | KeyPress string

fun fire :: "event \<Rightarrow> Wizard \<Rightarrow> Wizard \<times> (string \<times> json) list option" where
  "fire (Change pInt pFloat) w = (onChange pInt pFloat w, None)"
| "fire ClickNext w =
     (if currentStep w < steps_length - 1 then (handleNext w, None) else (w, None))"
| "fire ClickPrevious w =
     (if currentStep w = 0 then (w, None) else (handlePrevious w, None))"
| "fire ClickSubmit w =
     (if currentStep w < steps_length - 1 then (w, None) else handleSubmit w)"
| "fire (KeyPress key) w = handleKeyPress key w"

text \<open>The state after a sequence of events, and the requests sent on the way.\<close>

fun run :: "event list \<Rightarrow> Wizard \<Rightarrow> Wizard" where
  "run [] w = w"
| "run (e # es) w = run es (fst (fire e w))"

fun requests :: "event list \<Rightarrow> Wizard \<Rightarrow> (string \<times> json) list list" where
  "requests [] w = []"
| "requests (e # es) w =
     (case snd (fire e w) of
        None \<Rightarrow> requests es (fst (fire e w))
      | Some b \<Rightarrow> b # requests es (fst (fire e w)))"

section \<open>The projection engine\<close>

text \<open>
  Modelled from the spec: the backend calculator
  (\<^verbatim>\<open>backend/app/services/financial_calculator.py\<close>) is described in the repository's
  documents but its code is not part of the sources. The definitions of this section
  follow sections 3 and 4 of the specification. Decimals are exact rationals.
\<close>

datatype error = ValidationError "string list" | ComputationError string

record AthleteFinancialInputs =
  i_currentAge :: int
  i_retirementAge :: int
  i_currentWealth :: rat
  i_currentIncome :: rat
  i_monthlyPayoutRequired :: rat

record AssumptionSet =
  withdrawalRate :: rat
  growthRatePreRetirement :: rat
  growthRatePostRetirement :: rat
  inflationRate :: rat
  taxRate :: rat

definition defaultAssumptions :: AssumptionSet where
  "defaultAssumptions = \<lparr>withdrawalRate = 4 / 100, growthRatePreRetirement = 5 / 100,
     growthRatePostRetirement = 3 / 100, inflationRate = 3 / 100, taxRate = 0\<rparr>"

text \<open>
  Modelled from the spec: the fields of the result that sections 3 and 4.2 determine by a
  formula. The remaining four (\<^verbatim>\<open>estimatedYearsMoneyLasts\<close>, \<^verbatim>\<open>feasibilityScore\<close>,
  \<^verbatim>\<open>urgencyLevel\<close>, \<^verbatim>\<open>recommendations\<close>) are described there by example only and are
  left out.
\<close>

record ProjectionResult =
  yearsToRetirement :: int
  annualPayoutRequired :: rat
  requiredCorpus :: rat
  projectedWealthAtRetirement :: rat
  wealthGap :: rat
  requiredMonthlySavings :: rat
  savingsRatePercentage :: rat
  isOnTrack :: bool

text \<open>
  Modelled from the spec: the input constraints of section 4.3, as the list of the
  fields that break them.
\<close>

definition offendingFields :: "AthleteFinancialInputs \<Rightarrow> string list" where
  "offendingFields i =
    (if 18 \<le> i_currentAge i \<and> i_currentAge i \<le> 100 then [] else [''age'']) @
    (if 18 \<le> i_retirementAge i \<and> i_retirementAge i \<le> 100 \<and> i_retirementAge i > i_currentAge i
     then [] else [''retirement_age'']) @
    (if i_currentWealth i \<ge> 0 then [] else [''current_wealth'']) @
    (if i_currentIncome i > 0 then [] else [''current_income'']) @
    (if i_monthlyPayoutRequired i > 0 then [] else [''monthly_payout_required''])"

definition validInputs :: "AthleteFinancialInputs \<Rightarrow> bool" where
  "validInputs i = (offendingFields i = [])"

text \<open>
  Modelled from the spec: step 6 of section 4.2, the payment \<open>PMT\<close> with
  \<open>PMT * (((1 + r) ^ n - 1) / r) = gap\<close>, and \<open>gap / n\<close> when \<open>r = 0\<close>. Where the
  annuity factor is zero no payment solves the equation: that is the specification's
  \<^verbatim>\<open>ComputationError\<close> for a division by zero.
\<close>

definition annuityFactor :: "rat \<Rightarrow> nat \<Rightarrow> rat" where
  "annuityFactor r n = (if r = 0 then of_nat n else ((1 + r) ^ n - 1) / r)"

definition annuityPayment :: "rat \<Rightarrow> nat \<Rightarrow> rat \<Rightarrow> error + rat" where
  "annuityPayment r n gap =
    (if annuityFactor r n = 0 then Inl (ComputationError ''annuity factor is zero'')
     else Inr (gap / annuityFactor r n))"

text \<open>
  Modelled from the spec: \<^verbatim>\<open>computeProjection\<close>, steps 1 to 7 of section 4.2 in their
  order, with the section's error conditions. The specification names the rate \<open>r\<close> of
  step 6 "the monthly-equivalent of \<^verbatim>\<open>growthRatePreRetirement\<close>" and gives no formula for
  it, so the conversion from the annual to the monthly rate is the parameter
  \<open>monthlyEquivalent\<close>.
\<close>

definition computeProjection ::
  "(rat \<Rightarrow> rat) \<Rightarrow> AthleteFinancialInputs \<Rightarrow> AssumptionSet \<Rightarrow> error + ProjectionResult" where
  "computeProjection monthlyEquivalent i a =
    (let years = i_retirementAge i - i_currentAge i in
     if years \<le> 0 then Inl (ValidationError [''retirement_age''])
     else if offendingFields i \<noteq> [] then Inl (ValidationError (offendingFields i))
     else
       let annual = i_monthlyPayoutRequired i * 12 in
       if withdrawalRate a = 0 then Inl (ValidationError [''withdrawal_rate''])
       else
         let corpus = annual / withdrawalRate a;
             projected = i_currentWealth i * (1 + growthRatePreRetirement a) ^ nat years;
             gap = corpus - projected
         in
           case (if gap \<le> 0 then Inr 0
                 else annuityPayment (monthlyEquivalent (growthRatePreRetirement a))
                        (nat years * 12) gap) of
             Inl e \<Rightarrow> Inl e
           | Inr savings \<Rightarrow>
               Inr \<lparr>yearsToRetirement = years,
                    annualPayoutRequired = annual,
                    requiredCorpus = corpus,
                    projectedWealthAtRetirement = projected,
                    wealthGap = gap,
                    requiredMonthlySavings = savings,
                    savingsRatePercentage = savings * 12 / i_currentIncome i * 100,
                    isOnTrack = (gap \<le> 0)\<rparr>)"

text \<open>
  The nominal conversion, one twelfth of the annual rate: one of the conversions the
  specification's wording admits, used to run the engine on concrete inputs.
\<close>

definition nominalMonthly :: "rat \<Rightarrow> rat" where
  "nominalMonthly g = g / 12"

text \<open>Scenario A of section 8 of the specification.\<close>

definition scenarioA :: AthleteFinancialInputs where
  "scenarioA = \<lparr>i_currentAge = 25, i_retirementAge = 40, i_currentWealth = 100000,
     i_currentIncome = 200000, i_monthlyPayoutRequired = 5000\<rparr>"

text \<open>Scenario B of section 8 of the specification.\<close>

definition scenarioB :: AthleteFinancialInputs where
  "scenarioB = \<lparr>i_currentAge = 30, i_retirementAge = 45, i_currentWealth = 2000000,
     i_currentIncome = 150000, i_monthlyPayoutRequired = 4000\<rparr>"

section \<open>Sample states and runs of the wizard\<close>

definition sampleData :: QuestionnaireData where
  "sampleData = \<lparr>age = Some 30, currentIncome = Some 150000, currentWealth = Some 50000,
     retirementAge = Some 45, monthlyPayoutRequired = Some 5000\<rparr>"

text \<open>Filling in the five steps and submitting.\<close>

definition fullRun :: "event list" where
  "fullRun = [Change (Some 30) (Some 30), ClickNext,
     Change (Some 150000) (Some 150000), KeyPress ''Enter'',
     Change (Some 50000) (Some 50000), ClickNext,
     Change (Some 45) (Some 45), ClickNext,
     Change (Some 5000) (Some 5000), ClickSubmit]"

text \<open>The same with a retirement age of 150.\<close>

definition overAgeRun :: "event list" where
  "overAgeRun = [Change (Some 30) (Some 30), ClickNext,
     Change (Some 150000) (Some 150000), ClickNext,
     Change (Some 50000) (Some 50000), ClickNext,
     Change (Some 150) (Some 150), ClickNext,
     Change (Some 5000) (Some 5000), ClickSubmit]"

text \<open>
  The invariant of the wizard: the step is one of the five, and the fields of all
  earlier steps pass their validation.
\<close>

definition stepsValidated :: "Wizard \<Rightarrow> bool" where
  "stepsValidated w \<longleftrightarrow> 0 \<le> currentStep w \<and> currentStep w \<le> 4
     \<and> (1 \<le> currentStep w \<longrightarrow> newErrors 0 (data w) = [])
     \<and> (2 \<le> currentStep w \<longrightarrow> newErrors 1 (data w) = [])
     \<and> (3 \<le> currentStep w \<longrightarrow> newErrors 2 (data w) = [])
     \<and> (4 \<le> currentStep w \<longrightarrow> newErrors 3 (data w) = [])"

section \<open>Properties of the validation\<close>

text \<open>
  When each step's \<^verbatim>\<open>newErrors\<close> is empty, read off the conditions of the \<^verbatim>\<open>switch\<close>.
\<close>

lemma newErrors_nil_iff:
  "newErrors 0 d = [] \<longleftrightarrow> (\<exists>a. age d = Some a \<and> 18 \<le> a \<and> a \<le> 100)"
  "newErrors 1 d = [] \<longleftrightarrow> (\<exists>v. currentIncome d = Some v \<and> 0 < v)"
  "newErrors 2 d = [] \<longleftrightarrow> (\<exists>v. currentWealth d = Some v \<and> 0 \<le> v)"
  "newErrors 3 d = [] \<longleftrightarrow> (\<exists>r. retirementAge d = Some r \<and> r \<noteq> 0 \<and> orZero (age d) < r)"
  "newErrors 4 d = [] \<longleftrightarrow> (\<exists>v. monthlyPayoutRequired d = Some v \<and> 0 < v)"
  by (auto simp: newErrors_def falsy_def orZero_def split: option.splits)

text \<open>
  C6: the age step (step 0) validates exactly when the age is present and is an integer
  from 18 to 100; a missing age, an age below 18 and an age above 100 are each rejected,
  and the rejection stores the error message under the key \<open>age\<close>.
\<close>

theorem age_step_valid_iff:
  "(fst (validateStep 0 w) \<longleftrightarrow> (\<exists>a. age (data w) = Some a \<and> 18 \<le> a \<and> a \<le> 100))
   \<and> (\<not> fst (validateStep 0 w) \<longrightarrow>
        errors (snd (validateStep 0 w)) =
          [(''age'', ''Please enter a valid age between 18 and 100'')])
   \<and> (fst (validateStep 0 w) \<longrightarrow> errors (snd (validateStep 0 w)) = [])"
  by (cases "age (data w)") (auto simp: validateStep_def newErrors_def falsy_def orZero_def Let_def)

theorem age_step_valid_iff_witness:
  "\<not> fst (validateStep 0 initialWizard)
   \<and> errors (snd (validateStep 0 initialWizard)) =
       [(''age'', ''Please enter a valid age between 18 and 100'')]
   \<and> fst (validateStep 0 (initialWizard\<lparr>data := initialData\<lparr>age := Some 18\<rparr>\<rparr>))
   \<and> \<not> fst (validateStep 0 (initialWizard\<lparr>data := initialData\<lparr>age := Some 17\<rparr>\<rparr>))
   \<and> \<not> fst (validateStep 0 (initialWizard\<lparr>data := initialData\<lparr>age := Some 101\<rparr>\<rparr>))"
  using age_step_valid_iff [of initialWizard]
    age_step_valid_iff [of "initialWizard\<lparr>data := initialData\<lparr>age := Some 18\<rparr>\<rparr>"]
    age_step_valid_iff [of "initialWizard\<lparr>data := initialData\<lparr>age := Some 17\<rparr>\<rparr>"]
    age_step_valid_iff [of "initialWizard\<lparr>data := initialData\<lparr>age := Some 101\<rparr>\<rparr>"]
  by (simp add: initialWizard_def initialData_def)

text \<open>
  C8: the wealth step (step 2) validates exactly when the wealth is present and not
  negative, so a wealth of 0 passes; it rejects exactly a missing wealth and a negative
  one, and the rejection stores the error message under the key \<open>currentWealth\<close>.
\<close>

theorem wealth_step_valid_iff:
  "(fst (validateStep 2 w) \<longleftrightarrow> (\<exists>v. currentWealth (data w) = Some v \<and> 0 \<le> v))
   \<and> (\<not> fst (validateStep 2 w) \<longleftrightarrow>
        currentWealth (data w) = None \<or> (\<exists>v. currentWealth (data w) = Some v \<and> v < 0))
   \<and> (currentWealth (data w) = Some 0 \<longrightarrow> fst (validateStep 2 w))
   \<and> (\<not> fst (validateStep 2 w) \<longrightarrow>
        errors (snd (validateStep 2 w)) =
          [(''currentWealth'', ''Please enter a valid amount (can be 0)'')])"
  by (cases "currentWealth (data w)")
     (auto simp: validateStep_def newErrors_def orZero_def Let_def)

theorem wealth_step_valid_iff_witness:
  "fst (validateStep 2 \<lparr>data = sampleData\<lparr>currentWealth := Some 0\<rparr>, currentStep = 2, errors = []\<rparr>)
   \<and> \<not> fst (validateStep 2 \<lparr>data = sampleData\<lparr>currentWealth := None\<rparr>, currentStep = 2, errors = []\<rparr>)
   \<and> \<not> fst (validateStep 2 \<lparr>data = sampleData\<lparr>currentWealth := Some (- 1)\<rparr>, currentStep = 2, errors = []\<rparr>)
   \<and> errors (snd (validateStep 2 \<lparr>data = sampleData\<lparr>currentWealth := None\<rparr>, currentStep = 2, errors = []\<rparr>))
       = [(''currentWealth'', ''Please enter a valid amount (can be 0)'')]"
  using wealth_step_valid_iff [of "\<lparr>data = sampleData\<lparr>currentWealth := Some 0\<rparr>, currentStep = 2, errors = []\<rparr>"]
    wealth_step_valid_iff [of "\<lparr>data = sampleData\<lparr>currentWealth := None\<rparr>, currentStep = 2, errors = []\<rparr>"]
    wealth_step_valid_iff [of "\<lparr>data = sampleData\<lparr>currentWealth := Some (- 1)\<rparr>, currentStep = 2, errors = []\<rparr>"]
  by (simp add: sampleData_def)

text \<open>
  The validation is one thing and the input handler another: a typed \<open>0\<close> is stored
  as \<^verbatim>\<open>parseFloat("0") || null\<close>, that is \<^verbatim>\<open>null\<close>, and the step then reports the wealth
  as missing.
\<close>

lemma typed_zero_wealth_is_stored_as_null:
  "currentStep w = 2 \<Longrightarrow>
     currentWealth (data (onChange (Some 0) (Some 0) w)) = None
     \<and> \<not> fst (validateStep 2 (onChange (Some 0) (Some 0) w))"
  by (simp add: onChange_def orNull_def validateStep_def newErrors_def Let_def)

section \<open>The wizard as a state machine\<close>

text \<open>
  The invariant \<open>stepsValidated\<close> holds at the start and every handler keeps it.
\<close>

lemma step_cases:
  assumes "0 \<le> (s::int)" "s \<le> 4"
  obtains "s = 0" | "s = 1" | "s = 2" | "s = 3" | "s = 4"
  using assms by arith

lemma stepsValidated_onChange: "stepsValidated w \<Longrightarrow> stepsValidated (onChange p q w)"
  by (auto simp: stepsValidated_def onChange_def Let_def newErrors_def)

lemma stepsValidated_handleNext:
  assumes "stepsValidated w"
  shows "stepsValidated (handleNext w)"
proof -
  from assms have "0 \<le> currentStep w" "currentStep w \<le> 4"
    by (simp_all add: stepsValidated_def)
  then show ?thesis
  proof (cases rule: step_cases)
    case 1 with assms show ?thesis
      by (simp add: stepsValidated_def handleNext_def validateStep_def Let_def steps_length_def)
  next
    case 2 with assms show ?thesis
      by (simp add: stepsValidated_def handleNext_def validateStep_def Let_def steps_length_def)
  next
    case 3 with assms show ?thesis
      by (simp add: stepsValidated_def handleNext_def validateStep_def Let_def steps_length_def)
  next
    case 4 with assms show ?thesis
      by (simp add: stepsValidated_def handleNext_def validateStep_def Let_def steps_length_def)
  next
    case 5 with assms show ?thesis
      by (simp add: stepsValidated_def handleNext_def validateStep_def Let_def steps_length_def)
  qed
qed

lemma stepsValidated_handlePrevious: "stepsValidated w \<Longrightarrow> stepsValidated (handlePrevious w)"
  unfolding stepsValidated_def handlePrevious_def by auto

lemma stepsValidated_handleSubmit: "stepsValidated w \<Longrightarrow> stepsValidated (fst (handleSubmit w))"
  unfolding stepsValidated_def handleSubmit_def validateStep_def Let_def by auto

lemma stepsValidated_fire: "stepsValidated w \<Longrightarrow> stepsValidated (fst (fire e w))"
  by (cases e) (auto simp: stepsValidated_onChange stepsValidated_handleNext stepsValidated_handlePrevious stepsValidated_handleSubmit handleKeyPress_def)

lemma stepsValidated_run: "stepsValidated w \<Longrightarrow> stepsValidated (run es w)"
  by (induction es arbitrary: w) (auto simp: stepsValidated_fire)

lemma stepsValidated_initial: "stepsValidated initialWizard"
  by (simp add: stepsValidated_def initialWizard_def)

text \<open>
  A request is sent only from the last step, and only when the payout passes; with
  the invariant, the ages in every request sent are present and ordered.
\<close>

lemma fire_request:
  assumes "stepsValidated w" "snd (fire e w) = Some b"
  shows "b = requestBody (data w) \<and> currentStep w = 4 \<and> newErrors 4 (data w) = []"
proof -
  from assms(1) have r: "0 \<le> currentStep w" "currentStep w \<le> 4"
    by (simp_all add: stepsValidated_def)
  have "snd (handleSubmit w) = Some b \<and> \<not> currentStep w < 4"
    using assms(2) by (cases e) (auto simp: handleKeyPress_def steps_length_def split: if_splits)
  with r have "currentStep w = 4" "snd (handleSubmit w) = Some b" by auto
  then show ?thesis
    by (auto simp: handleSubmit_def validateStep_def Let_def split: if_splits)
qed

lemma requests_validated:
  "stepsValidated w \<Longrightarrow> b \<in> set (requests es w) \<Longrightarrow>
     \<exists>d. b = requestBody d \<and> newErrors 0 d = [] \<and> newErrors 3 d = []"
proof (induction es arbitrary: w)
  case Nil
  then show ?case by simp
next
  case (Cons e es)
  show ?case
  proof (cases "snd (fire e w)")
    case None
    with Cons.prems have "b \<in> set (requests es (fst (fire e w)))" by simp
    with Cons.IH [OF stepsValidated_fire [OF Cons.prems(1)]] show ?thesis by blast
  next
    case (Some b')
    with Cons.prems have "b = b' \<or> b \<in> set (requests es (fst (fire e w)))" by auto
    then show ?thesis
    proof
      assume "b = b'"
      with fire_request [OF Cons.prems(1) Some] Cons.prems(1)
      show ?thesis by (auto simp: stepsValidated_def)
    next
      assume "b \<in> set (requests es (fst (fire e w)))"
      with Cons.IH [OF stepsValidated_fire [OF Cons.prems(1)]] show ?thesis by blast
    qed
  qed
qed

lemma requestBody_ages:
  assumes "newErrors 0 d = []" "newErrors 3 d = []"
  shows "\<exists>a r. map_of (requestBody d) ''age'' = Some (JInt a)
     \<and> map_of (requestBody d) ''retirement_age'' = Some (JInt r) \<and> a < r"
  using assms unfolding newErrors_nil_iff
  by (auto simp: requestBody_def jsonInt_def orZero_def)

lemma no_request_before_last_step:
  "currentStep w < 4 \<Longrightarrow> snd (fire e w) = None"
  by (cases e) (auto simp: handleKeyPress_def steps_length_def)

lemma fullRun_requests:
  "requests fullRun initialWizard =
     [[(''age'', JInt 30), (''retirement_age'', JInt 45), (''current_wealth'', JNum 50000),
       (''current_income'', JNum 150000), (''monthly_payout_required'', JNum 5000)]]"
  by (simp add: fullRun_def initialWizard_def initialData_def handleKeyPress_def handleNext_def
      handleSubmit_def validateStep_def newErrors_def onChange_def orNull_def orZero_def falsy_def
      steps_length_def requestBody_def jsonInt_def jsonNum_def Let_def)

text \<open>
  C5: the retirement-age step (step 3) validates only when the retirement age is present
  and strictly greater than the current age, where the code reads a missing age as 0
  (\<^verbatim>\<open>data.age || 0\<close>). When the retirement age is at most the current age, the validation
  fails and stores the message about the age ordering under the key \<open>retirementAge\<close>;
  at that step no event sends a request, and Next and Enter leave the wizard on the step
  with that message. Over whole runs: every request sent on a run from the initial state
  carries an age and a retirement age with the retirement age the greater.
\<close>

theorem retirement_step_ordering:
  "(fst (validateStep 3 w) \<longrightarrow>
      (\<exists>r. retirementAge (data w) = Some r \<and> orZero (age (data w)) < r
         \<and> (\<forall>a. age (data w) = Some a \<longrightarrow> a < r)))
   \<and> (retirementAge (data w) = Some r \<and> r \<le> orZero (age (data w)) \<longrightarrow>
        \<not> fst (validateStep 3 w)
        \<and> errors (snd (validateStep 3 w)) =
            [(''retirementAge'', ''Retirement age must be greater than current age'')])
   \<and> (currentStep w = 3 \<and> retirementAge (data w) = Some r \<and> r \<le> orZero (age (data w)) \<longrightarrow>
        snd (fire e w) = None
        \<and> currentStep (fst (fire ClickNext w)) = 3
        \<and> errors (fst (fire ClickNext w)) =
            [(''retirementAge'', ''Retirement age must be greater than current age'')]
        \<and> fire (KeyPress ''Enter'') w = fire ClickNext w)
   \<and> (\<forall>b \<in> set (requests es initialWizard). \<exists>a r'.
         map_of b ''age'' = Some (JInt a) \<and> map_of b ''retirement_age'' = Some (JInt r')
         \<and> a < r')"
proof (intro conjI)
  show "fst (validateStep 3 w) \<longrightarrow>
      (\<exists>r. retirementAge (data w) = Some r \<and> orZero (age (data w)) < r
         \<and> (\<forall>a. age (data w) = Some a \<longrightarrow> a < r))"
    by (auto simp: validateStep_def Let_def newErrors_nil_iff orZero_def)
next
  show "retirementAge (data w) = Some r \<and> r \<le> orZero (age (data w)) \<longrightarrow>
        \<not> fst (validateStep 3 w)
        \<and> errors (snd (validateStep 3 w)) =
            [(''retirementAge'', ''Retirement age must be greater than current age'')]"
    by (auto simp: validateStep_def Let_def newErrors_def orZero_def falsy_def)
next
  show "currentStep w = 3 \<and> retirementAge (data w) = Some r \<and> r \<le> orZero (age (data w)) \<longrightarrow>
        snd (fire e w) = None
        \<and> currentStep (fst (fire ClickNext w)) = 3
        \<and> errors (fst (fire ClickNext w)) =
            [(''retirementAge'', ''Retirement age must be greater than current age'')]
        \<and> fire (KeyPress ''Enter'') w = fire ClickNext w"
    by (auto simp: no_request_before_last_step handleKeyPress_def handleNext_def steps_length_def
        validateStep_def Let_def newErrors_def orZero_def falsy_def)
next
  show "\<forall>b \<in> set (requests es initialWizard). \<exists>a r'.
         map_of b ''age'' = Some (JInt a) \<and> map_of b ''retirement_age'' = Some (JInt r')
         \<and> a < r'"
  proof
    fix b assume "b \<in> set (requests es initialWizard)"
    from requests_validated [OF stepsValidated_initial this] requestBody_ages
    show "\<exists>a r'. map_of b ''age'' = Some (JInt a) \<and> map_of b ''retirement_age'' = Some (JInt r')
         \<and> a < r'" by blast
  qed
qed

theorem retirement_step_ordering_witness:
  "\<not> fst (validateStep 3 \<lparr>data = sampleData\<lparr>age := Some 45, retirementAge := Some 40\<rparr>,
       currentStep = 3, errors = []\<rparr>)
   \<and> errors (fst (fire ClickNext \<lparr>data = sampleData\<lparr>age := Some 45, retirementAge := Some 40\<rparr>,
       currentStep = 3, errors = []\<rparr>)) =
       [(''retirementAge'', ''Retirement age must be greater than current age'')]
   \<and> snd (fire (KeyPress ''Enter'') \<lparr>data = sampleData\<lparr>age := Some 45, retirementAge := Some 40\<rparr>,
       currentStep = 3, errors = []\<rparr>) = None
   \<and> fst (validateStep 3 \<lparr>data = sampleData, currentStep = 3, errors = []\<rparr>)
   \<and> (\<exists>a r. map_of (hd (requests fullRun initialWizard)) ''age'' = Some (JInt a)
        \<and> map_of (hd (requests fullRun initialWizard)) ''retirement_age'' = Some (JInt r) \<and> a < r)"
  using retirement_step_ordering [of
      "\<lparr>data = sampleData\<lparr>age := Some 45, retirementAge := Some 40\<rparr>, currentStep = 3, errors = []\<rparr>"
      40 "KeyPress ''Enter''" fullRun]
    retirement_step_ordering [of "\<lparr>data = sampleData, currentStep = 3, errors = []\<rparr>"
      45 ClickNext fullRun]
  by (simp add: sampleData_def orZero_def fullRun_requests validateStep_def newErrors_def falsy_def)

text \<open>
  C7: the retirement-age step does not check the range. With an age of 30, a retirement
  age of 150 passes step 3, and the run that types it in ends with a request that carries
  \<open>retirement_age = 150\<close>.
\<close>

theorem retirement_step_accepts_age_above_100:
  "fst (validateStep 3 \<lparr>data = sampleData\<lparr>retirementAge := Some 150\<rparr>, currentStep = 3, errors = []\<rparr>)
   \<and> requests overAgeRun initialWizard =
     [[(''age'', JInt 30), (''retirement_age'', JInt 150), (''current_wealth'', JNum 50000),
       (''current_income'', JNum 150000), (''monthly_payout_required'', JNum 5000)]]"
  by (simp add: overAgeRun_def sampleData_def initialWizard_def initialData_def handleKeyPress_def handleNext_def
      handleSubmit_def validateStep_def newErrors_def onChange_def orNull_def orZero_def falsy_def
      steps_length_def requestBody_def jsonInt_def jsonNum_def Let_def)

text \<open>
  C9: on the last step (step 4) \<^verbatim>\<open>handleSubmit\<close> sends the request exactly when the monthly
  payout is present and positive, whatever the other four fields hold; the submit button
  and the Enter key both run it; the body is built from the data as they are, and a
  missing wealth goes out as \<open>0\<close>.
\<close>

theorem submit_gated_by_payout_only:
  "currentStep w = 4 \<Longrightarrow>
     (snd (handleSubmit w) \<noteq> None \<longleftrightarrow> (\<exists>v. monthlyPayoutRequired (data w) = Some v \<and> 0 < v))
   \<and> (\<forall>b. snd (handleSubmit w) = Some b \<longrightarrow> b = requestBody (data w))
   \<and> fire ClickSubmit w = handleSubmit w
   \<and> fire (KeyPress ''Enter'') w = handleSubmit w
   \<and> (currentWealth (data w) = None \<longrightarrow>
        map_of (requestBody (data w)) ''current_wealth'' = Some (JNum 0))"
  by (auto simp: handleSubmit_def validateStep_def Let_def newErrors_nil_iff handleKeyPress_def
      steps_length_def requestBody_def orZero_def)

theorem submit_gated_by_payout_only_witness:
  "currentStep \<lparr>data = initialData\<lparr>monthlyPayoutRequired := Some 5000\<rparr>, currentStep = 4, errors = []\<rparr> = 4
   \<and> snd (handleSubmit \<lparr>data = initialData\<lparr>monthlyPayoutRequired := Some 5000\<rparr>, currentStep = 4, errors = []\<rparr>)
       = Some [(''age'', JNull), (''retirement_age'', JNull), (''current_wealth'', JNum 0),
               (''current_income'', JNull), (''monthly_payout_required'', JNum 5000)]
   \<and> newErrors 0 (initialData\<lparr>monthlyPayoutRequired := Some 5000\<rparr>) \<noteq> []
   \<and> newErrors 1 (initialData\<lparr>monthlyPayoutRequired := Some 5000\<rparr>) \<noteq> []
   \<and> newErrors 2 (initialData\<lparr>monthlyPayoutRequired := Some 5000\<rparr>) \<noteq> []
   \<and> newErrors 3 (initialData\<lparr>monthlyPayoutRequired := Some 5000\<rparr>) \<noteq> []"
  using submit_gated_by_payout_only [of
      "\<lparr>data = initialData\<lparr>monthlyPayoutRequired := Some 5000\<rparr>, currentStep = 4, errors = []\<rparr>"]
  by (auto simp: initialData_def requestBody_def jsonInt_def jsonNum_def orZero_def newErrors_def falsy_def)

text \<open>
  The step counter stays between 0 and 4 under every event.
\<close>

lemma range_fire:
  "0 \<le> currentStep w \<and> currentStep w \<le> 4 \<Longrightarrow>
     0 \<le> currentStep (fst (fire e w)) \<and> currentStep (fst (fire e w)) \<le> 4"
  by (cases e) (auto simp: handleNext_def validateStep_def Let_def steps_length_def
      handlePrevious_def handleSubmit_def handleKeyPress_def onChange_def)

lemma range_run:
  "0 \<le> currentStep w \<and> currentStep w \<le> 4 \<Longrightarrow>
     0 \<le> currentStep (run es w) \<and> currentStep (run es w) \<le> 4"
proof (induction es arbitrary: w)
  case Nil
  then show ?case by simp
next
  case (Cons e es)
  from Cons.IH [OF range_fire [OF Cons.prems]] show ?case by simp
qed

text \<open>
  C10: from a step between 0 and 4, and so from the initial state, every sequence of
  events leaves \<open>currentStep\<close> between 0 and 4. \<^verbatim>\<open>handleNext\<close> adds one exactly when the
  validation of the current step passes and the step is below 4; \<^verbatim>\<open>handlePrevious\<close>
  subtracts one exactly when the step is above 0, and then empties the errors; neither
  touches the data; a key press moves the step only as \<^verbatim>\<open>handleNext\<close> does, on Enter.
\<close>

theorem currentStep_stays_in_range:
  "(0 \<le> currentStep w \<and> currentStep w \<le> 4 \<longrightarrow>
      0 \<le> currentStep (run es w) \<and> currentStep (run es w) \<le> 4)
   \<and> 0 \<le> currentStep (run es initialWizard) \<and> currentStep (run es initialWizard) \<le> 4
   \<and> currentStep (handleNext w) =
       (if fst (validateStep (currentStep w) w) \<and> currentStep w < 4
        then currentStep w + 1 else currentStep w)
   \<and> currentStep (handlePrevious w) =
       (if currentStep w > 0 then currentStep w - 1 else currentStep w)
   \<and> (currentStep w > 0 \<longrightarrow> errors (handlePrevious w) = [])
   \<and> data (handleNext w) = data w \<and> data (handlePrevious w) = data w
   \<and> currentStep (fst (handleKeyPress key w)) =
       (if key = ''Enter'' then currentStep (handleNext w) else currentStep w)"
proof -
  have i: "0 \<le> currentStep initialWizard \<and> currentStep initialWizard \<le> 4"
    by (simp add: initialWizard_def)
  show ?thesis
    using range_run [of w es] range_run [OF i, of es]
    by (auto simp: handleNext_def handlePrevious_def handleKeyPress_def handleSubmit_def
        validateStep_def Let_def steps_length_def)
qed

theorem currentStep_stays_in_range_witness:
  "0 \<le> currentStep (run (fullRun @ [ClickNext, KeyPress ''Enter'', ClickPrevious]) initialWizard)
   \<and> currentStep (run (fullRun @ [ClickNext, KeyPress ''Enter'', ClickPrevious]) initialWizard) \<le> 4
   \<and> currentStep (run fullRun initialWizard) = 4
   \<and> currentStep (handleNext (run fullRun initialWizard)) = 4
   \<and> currentStep (handlePrevious initialWizard) = 0
   \<and> currentStep (handleNext initialWizard) = 0"
  using currentStep_stays_in_range [of initialWizard "fullRun @ [ClickNext, KeyPress ''Enter'', ClickPrevious]" "''Enter''"]
     currentStep_stays_in_range [of "run fullRun initialWizard" "[]" "''Enter''"]
  apply (simp add: fullRun_def initialWizard_def initialData_def handleKeyPress_def handleNext_def
      handleSubmit_def validateStep_def newErrors_def onChange_def orNull_def orZero_def falsy_def
      steps_length_def Let_def)
  done

section \<open>Properties of the projection engine\<close>

text \<open>
  The annuity factor is positive for every monthly rate from \<open>-1\<close> upwards, so the
  payment exists there.
\<close>

lemma annuityFactor_pos:
  assumes "- 1 \<le> r" "0 < n"
  shows "0 < annuityFactor r n"
proof -
  consider "r = 0" | "0 < r" | "r < 0" by linarith
  then show ?thesis
  proof cases
    case 1
    with assms show ?thesis by (simp add: annuityFactor_def)
  next
    case 2
    then have "1 < (1 + r) ^ n" using assms(2) by simp
    with 2 show ?thesis by (simp add: annuityFactor_def)
  next
    case 3
    with assms have "0 \<le> 1 + r" "1 + r < 1" by simp_all
    then have "(1 + r) ^ n < 1" using assms(2) by (simp add: power_less_one_iff)
    with 3 show ?thesis by (simp add: annuityFactor_def divide_neg_neg)
  qed
qed

lemma validInputs_iff:
  "validInputs i \<longleftrightarrow>
     18 \<le> i_currentAge i \<and> i_currentAge i \<le> 100 \<and> 18 \<le> i_retirementAge i
     \<and> i_retirementAge i \<le> 100 \<and> i_currentAge i < i_retirementAge i
     \<and> 0 \<le> i_currentWealth i \<and> 0 < i_currentIncome i \<and> 0 < i_monthlyPayoutRequired i"
  by (auto simp: validInputs_def offendingFields_def)

text \<open>
  For valid inputs and a withdrawal rate other than 0 the engine returns a result, and
  every result it returns has its fields related as section 3 says.
\<close>

lemma computeProjection_returns:
  assumes "validInputs i" "withdrawalRate a \<noteq> 0" "- 1 \<le> me (growthRatePreRetirement a)"
  shows "\<exists>r. computeProjection me i a = Inr r
     \<and> projectedWealthAtRetirement r =
         i_currentWealth i * (1 + growthRatePreRetirement a) ^ nat (i_retirementAge i - i_currentAge i)
     \<and> requiredMonthlySavings r =
         (if wealthGap r \<le> 0 then 0
          else wealthGap r / annuityFactor (me (growthRatePreRetirement a))
                 (nat (i_retirementAge i - i_currentAge i) * 12))"
proof -
  from assms(1) have y: "0 < i_retirementAge i - i_currentAge i"
    by (simp add: validInputs_iff)
  from assms(1) have o: "offendingFields i = []"
    by (simp add: validInputs_def)
  from y have "0 < nat (i_retirementAge i - i_currentAge i) * 12" by simp
  from annuityFactor_pos [OF assms(3) this]
  have "annuityFactor (me (growthRatePreRetirement a)) (nat (i_retirementAge i - i_currentAge i) * 12) \<noteq> 0"
    by simp
  with y o assms(2) show ?thesis
    by (simp add: computeProjection_def Let_def annuityPayment_def)
qed

lemma computeProjection_result:
  assumes "computeProjection me i a = Inr r"
  shows "yearsToRetirement r = i_retirementAge i - i_currentAge i
    \<and> annualPayoutRequired r = i_monthlyPayoutRequired i * 12
    \<and> requiredCorpus r = annualPayoutRequired r / withdrawalRate a
    \<and> wealthGap r = requiredCorpus r - projectedWealthAtRetirement r
    \<and> isOnTrack r = (wealthGap r \<le> 0)
    \<and> (wealthGap r \<le> 0 \<longrightarrow> requiredMonthlySavings r = 0)"
  using assms
  by (auto simp: computeProjection_def Let_def split: if_splits sum.splits)

lemma scenarioA_valid: "validInputs scenarioA"
  by (simp add: validInputs_def offendingFields_def scenarioA_def)

text \<open>
  C1: for valid inputs and every assumption set, a withdrawal rate of 0 makes the engine
  fail with a \<open>ValidationError\<close>; every result it returns has
  \<open>annualPayoutRequired = monthlyPayoutRequired * 12\<close> and
  \<open>requiredCorpus = annualPayoutRequired / withdrawalRate\<close>, exactly; and it does return a
  result when the withdrawal rate is not 0 (and the monthly rate is at least \<open>-1\<close>, so that
  the payment of step 6 exists).
\<close>

theorem requiredCorpus_formula:
  assumes "validInputs i"
  shows "(withdrawalRate a = 0 \<longrightarrow>
            computeProjection me i a = Inl (ValidationError [''withdrawal_rate'']))
     \<and> (\<forall>r. computeProjection me i a = Inr r \<longrightarrow>
            annualPayoutRequired r = i_monthlyPayoutRequired i * 12
            \<and> requiredCorpus r = annualPayoutRequired r / withdrawalRate a
            \<and> withdrawalRate a \<noteq> 0)
     \<and> (withdrawalRate a \<noteq> 0 \<and> - 1 \<le> me (growthRatePreRetirement a) \<longrightarrow>
            (\<exists>r. computeProjection me i a = Inr r))"
proof (intro conjI)
  from assms have y: "0 < i_retirementAge i - i_currentAge i"
    by (simp add: validInputs_iff)
  moreover from assms have o: "offendingFields i = []"
    by (simp add: validInputs_def)
  ultimately show "withdrawalRate a = 0 \<longrightarrow>
      computeProjection me i a = Inl (ValidationError [''withdrawal_rate''])"
    by (simp add: computeProjection_def Let_def)
  show "\<forall>r. computeProjection me i a = Inr r \<longrightarrow>
            annualPayoutRequired r = i_monthlyPayoutRequired i * 12
            \<and> requiredCorpus r = annualPayoutRequired r / withdrawalRate a
            \<and> withdrawalRate a \<noteq> 0"
    using computeProjection_result [of me i a]
    by (auto simp: computeProjection_def Let_def split: if_splits)
  show "withdrawalRate a \<noteq> 0 \<and> - 1 \<le> me (growthRatePreRetirement a) \<longrightarrow>
            (\<exists>r. computeProjection me i a = Inr r)"
    using computeProjection_returns [of i a me, OF assms] by blast
qed

theorem requiredCorpus_formula_witness:
  "validInputs scenarioA
   \<and> computeProjection nominalMonthly scenarioA (defaultAssumptions\<lparr>withdrawalRate := 0\<rparr>)
       = Inl (ValidationError [''withdrawal_rate''])
   \<and> withdrawalRate defaultAssumptions \<noteq> 0
   \<and> - 1 \<le> nominalMonthly (growthRatePreRetirement defaultAssumptions)
   \<and> (\<exists>r. computeProjection nominalMonthly scenarioA defaultAssumptions = Inr r
        \<and> annualPayoutRequired r = 60000 \<and> requiredCorpus r = 1500000)"
proof -
  have h: "validInputs scenarioA" by (rule scenarioA_valid)
  have w: "withdrawalRate defaultAssumptions \<noteq> 0" by (simp add: defaultAssumptions_def)
  have g: "- 1 \<le> nominalMonthly (growthRatePreRetirement defaultAssumptions)"
    by (simp add: defaultAssumptions_def nominalMonthly_def)
  note t = requiredCorpus_formula [of scenarioA defaultAssumptions nominalMonthly, OF h]
  from t w g obtain r where r: "computeProjection nominalMonthly scenarioA defaultAssumptions = Inr r"
    by blast
  with t have "annualPayoutRequired r = i_monthlyPayoutRequired scenarioA * 12"
    and "requiredCorpus r = annualPayoutRequired r / withdrawalRate defaultAssumptions"
    by blast+
  then have v: "annualPayoutRequired r = 60000 \<and> requiredCorpus r = 1500000"
    by (simp add: scenarioA_def defaultAssumptions_def)
  have "computeProjection nominalMonthly scenarioA (defaultAssumptions\<lparr>withdrawalRate := 0\<rparr>)
       = Inl (ValidationError [''withdrawal_rate''])"
    using requiredCorpus_formula [of scenarioA "defaultAssumptions\<lparr>withdrawalRate := 0\<rparr>" nominalMonthly, OF h]
    by simp
  with h w g r v show ?thesis by blast
qed

text \<open>
  C2: for valid inputs, every result has \<open>isOnTrack\<close> exactly when \<open>wealthGap \<le> 0\<close>, and
  then \<open>requiredMonthlySavings = 0\<close>.
\<close>

theorem isOnTrack_iff_no_gap:
  assumes "validInputs i"
  shows "(\<forall>r. computeProjection me i a = Inr r \<longrightarrow>
            (isOnTrack r \<longleftrightarrow> wealthGap r \<le> 0)
            \<and> (wealthGap r \<le> 0 \<longrightarrow> requiredMonthlySavings r = 0))
     \<and> (withdrawalRate a \<noteq> 0 \<and> - 1 \<le> me (growthRatePreRetirement a) \<longrightarrow>
            (\<exists>r. computeProjection me i a = Inr r))"
  using computeProjection_result [of me i a] computeProjection_returns [of i a me, OF assms]
  by blast

theorem isOnTrack_iff_no_gap_witness:
  "validInputs scenarioB
   \<and> withdrawalRate defaultAssumptions \<noteq> 0
   \<and> - 1 \<le> nominalMonthly (growthRatePreRetirement defaultAssumptions)
   \<and> (\<exists>r. computeProjection nominalMonthly scenarioB defaultAssumptions = Inr r
        \<and> wealthGap r \<le> 0 \<and> isOnTrack r \<and> requiredMonthlySavings r = 0)"
proof -
  have h: "validInputs scenarioB"
    by (simp add: validInputs_def offendingFields_def scenarioB_def)
  have w: "withdrawalRate defaultAssumptions \<noteq> 0" by (simp add: defaultAssumptions_def)
  have g: "- 1 \<le> nominalMonthly (growthRatePreRetirement defaultAssumptions)"
    by (simp add: defaultAssumptions_def nominalMonthly_def)
  note t = isOnTrack_iff_no_gap [of scenarioB nominalMonthly defaultAssumptions, OF h]
  from t w g obtain r where r: "computeProjection nominalMonthly scenarioB defaultAssumptions = Inr r"
    by blast
  then have "wealthGap r \<le> 0"
    by (auto simp: computeProjection_def Let_def scenarioB_def defaultAssumptions_def
        offendingFields_def power_divide split: if_splits sum.splits)
  with t r have "wealthGap r \<le> 0 \<and> isOnTrack r \<and> requiredMonthlySavings r = 0" by blast
  with h w g r show ?thesis by blast
qed

text \<open>
  C3: scenario A under the default assumptions, for every conversion to a monthly rate
  that gives at least \<open>-1\<close> at 5 percent: 15 years, an annual payout of 60000, a corpus of
  1500000, a projected wealth of \<open>100000 * 1.05 ^ 15\<close>, which is within one half of 207893,
  a gap within one half of 1292107, positive monthly savings, and not on track.
\<close>

theorem scenarioA_projection:
  assumes "- 1 \<le> me (5 / 100)"
  shows "\<exists>r. computeProjection me scenarioA defaultAssumptions = Inr r
     \<and> yearsToRetirement r = 15
     \<and> annualPayoutRequired r = 60000
     \<and> requiredCorpus r = 1500000
     \<and> projectedWealthAtRetirement r = 100000 * (105 / 100) ^ 15
     \<and> \<bar>projectedWealthAtRetirement r - 207893\<bar> < 1 / 2
     \<and> \<bar>wealthGap r - 1292107\<bar> < 1 / 2
     \<and> 0 < requiredMonthlySavings r
     \<and> \<not> isOnTrack r"
proof -
  have w: "withdrawalRate defaultAssumptions \<noteq> 0"
    by (simp add: defaultAssumptions_def)
  have g: "- 1 \<le> me (growthRatePreRetirement defaultAssumptions)"
    using assms by (simp add: defaultAssumptions_def)
  from computeProjection_returns [of scenarioA defaultAssumptions me, OF scenarioA_valid w g]
  obtain r where r: "computeProjection me scenarioA defaultAssumptions = Inr r"
    and p: "projectedWealthAtRetirement r =
         i_currentWealth scenarioA * (1 + growthRatePreRetirement defaultAssumptions)
           ^ nat (i_retirementAge scenarioA - i_currentAge scenarioA)"
    and s: "requiredMonthlySavings r =
         (if wealthGap r \<le> 0 then 0
          else wealthGap r / annuityFactor (me (growthRatePreRetirement defaultAssumptions))
                 (nat (i_retirementAge scenarioA - i_currentAge scenarioA) * 12))"
    by blast
  note f = computeProjection_result [OF r]
  have y: "yearsToRetirement r = 15"
    using f by (simp add: scenarioA_def)
  have an: "annualPayoutRequired r = 60000"
    using f by (simp add: scenarioA_def)
  have c: "requiredCorpus r = 1500000"
    using f an by (simp add: defaultAssumptions_def)
  have p': "projectedWealthAtRetirement r = 100000 * (105 / 100) ^ 15"
    using p by (simp add: scenarioA_def defaultAssumptions_def)
  have gap: "wealthGap r = 1500000 - 100000 * (105 / 100) ^ 15"
    using f c p' by simp
  have pa: "\<bar>projectedWealthAtRetirement r - 207893\<bar> < 1 / 2"
    unfolding p' by (simp add: power_divide)
  have ga: "\<bar>wealthGap r - 1292107\<bar> < 1 / 2"
    unfolding gap by (simp add: power_divide)
  have gp: "0 < wealthGap r"
    unfolding gap by (simp add: power_divide)
  have "0 < annuityFactor (me (growthRatePreRetirement defaultAssumptions))
                 (nat (i_retirementAge scenarioA - i_currentAge scenarioA) * 12)"
    by (rule annuityFactor_pos [OF g]) (simp add: scenarioA_def)
  with gp s have sp: "0 < requiredMonthlySavings r" by simp
  from gp f have "\<not> isOnTrack r" by simp
  with r y an c p' pa ga sp show ?thesis by blast
qed

theorem scenarioA_projection_witness:
  "- 1 \<le> nominalMonthly (5 / 100)
   \<and> (\<exists>r. computeProjection nominalMonthly scenarioA defaultAssumptions = Inr r
     \<and> yearsToRetirement r = 15
     \<and> annualPayoutRequired r = 60000
     \<and> requiredCorpus r = 1500000
     \<and> \<bar>projectedWealthAtRetirement r - 207893\<bar> < 1 / 2
     \<and> \<bar>wealthGap r - 1292107\<bar> < 1 / 2
     \<and> 0 < requiredMonthlySavings r
     \<and> \<not> isOnTrack r)"
proof -
  have h: "- 1 \<le> nominalMonthly (5 / 100)" by (simp add: nominalMonthly_def)
  from scenarioA_projection [of nominalMonthly, OF h] h show ?thesis by blast
qed

text \<open>
  C4: take a valid input and raise its \<open>monthlyPayoutRequired\<close>, all else fixed, under an
  assumption set for which the engine returns, that is one with a positive withdrawal
  rate as every set of the expected range other than 0 has (the conversion to a monthly
  rate giving at least \<open>-1\<close>). Then the second input is valid too, the engine returns
  for both, and \<open>requiredCorpus\<close>, \<open>wealthGap\<close> and \<open>requiredMonthlySavings\<close> are each at least
  as large for the larger payout.
\<close>

theorem payout_monotone:
  assumes "validInputs i"
    and "i_monthlyPayoutRequired i \<le> p"
    and "0 < withdrawalRate a"
    and "- 1 \<le> me (growthRatePreRetirement a)"
  shows "validInputs (i\<lparr>i_monthlyPayoutRequired := p\<rparr>)
     \<and> (\<exists>r r'. computeProjection me i a = Inr r
          \<and> computeProjection me (i\<lparr>i_monthlyPayoutRequired := p\<rparr>) a = Inr r'
          \<and> requiredCorpus r \<le> requiredCorpus r'
          \<and> wealthGap r \<le> wealthGap r'
          \<and> requiredMonthlySavings r \<le> requiredMonthlySavings r')"
proof -
  let ?j = "i\<lparr>i_monthlyPayoutRequired := p\<rparr>"
  let ?n = "nat (i_retirementAge i - i_currentAge i) * 12"
  let ?F = "annuityFactor (me (growthRatePreRetirement a)) ?n"
  from assms(1,2) have vj: "validInputs ?j"
    by (simp add: validInputs_iff)
  from assms(3) have w: "withdrawalRate a \<noteq> 0" by simp
  from computeProjection_returns [of i a me, OF assms(1) w assms(4)]
  obtain r where r: "computeProjection me i a = Inr r"
    and pr: "projectedWealthAtRetirement r =
         i_currentWealth i * (1 + growthRatePreRetirement a) ^ nat (i_retirementAge i - i_currentAge i)"
    and sr: "requiredMonthlySavings r = (if wealthGap r \<le> 0 then 0 else wealthGap r / ?F)"
    by blast
  from computeProjection_returns [of ?j a me, OF vj w assms(4)]
  obtain r' where r': "computeProjection me ?j a = Inr r'"
    and pr': "projectedWealthAtRetirement r' =
         i_currentWealth i * (1 + growthRatePreRetirement a) ^ nat (i_retirementAge i - i_currentAge i)"
    and sr': "requiredMonthlySavings r' = (if wealthGap r' \<le> 0 then 0 else wealthGap r' / ?F)"
    by auto
  note f = computeProjection_result [OF r] and f' = computeProjection_result [OF r']
  have c: "requiredCorpus r = i_monthlyPayoutRequired i * 12 / withdrawalRate a"
    using f by simp
  have c': "requiredCorpus r' = p * 12 / withdrawalRate a"
    using f' by simp
  have corpus: "requiredCorpus r \<le> requiredCorpus r'"
    unfolding c c' using assms(2,3) by (simp add: divide_right_mono)
  have gap: "wealthGap r \<le> wealthGap r'"
    using f f' pr pr' corpus by simp
  from assms(1) have "0 < ?n" by (simp add: validInputs_iff)
  from annuityFactor_pos [OF assms(4) this] have F: "0 < ?F" .
  have savings: "requiredMonthlySavings r \<le> requiredMonthlySavings r'"
  proof (cases "wealthGap r \<le> 0")
    case True
    with sr sr' F show ?thesis by simp
  next
    case False
    with gap have "\<not> wealthGap r' \<le> 0" by simp
    with False sr sr' gap F show ?thesis by (simp add: divide_right_mono)
  qed
  from vj r r' corpus gap savings show ?thesis by blast
qed

theorem payout_monotone_witness:
  "validInputs scenarioA \<and> i_monthlyPayoutRequired scenarioA \<le> 10000
   \<and> 0 < withdrawalRate defaultAssumptions
   \<and> - 1 \<le> nominalMonthly (growthRatePreRetirement defaultAssumptions)
   \<and> (\<exists>r r'. computeProjection nominalMonthly scenarioA defaultAssumptions = Inr r
          \<and> computeProjection nominalMonthly (scenarioA\<lparr>i_monthlyPayoutRequired := 10000\<rparr>)
               defaultAssumptions = Inr r'
          \<and> requiredCorpus r \<le> requiredCorpus r'
          \<and> wealthGap r \<le> wealthGap r'
          \<and> requiredMonthlySavings r \<le> requiredMonthlySavings r')"
proof -
  have h1: "validInputs scenarioA" by (rule scenarioA_valid)
  have h2: "i_monthlyPayoutRequired scenarioA \<le> 10000" by (simp add: scenarioA_def)
  have h3: "0 < withdrawalRate defaultAssumptions" by (simp add: defaultAssumptions_def)
  have h4: "- 1 \<le> nominalMonthly (growthRatePreRetirement defaultAssumptions)"
    by (simp add: defaultAssumptions_def nominalMonthly_def)
  from payout_monotone [of scenarioA 10000 defaultAssumptions nominalMonthly, OF h1 h2 h3 h4] h1 h2 h3 h4
  show ?thesis by blast
qed

end
